theory Spec2Isabelle
  imports Main
begin

section \<open>The HLS downloader of main.go\<close>

text \<open>
  A shallow embedding of \<^verbatim>\<open>HLSDownloader\<close> (main.go): the manifest fetcher
  \<^verbatim>\<open>getPlaylist\<close>, the segment loop \<^verbatim>\<open>processChunks\<close>, the polling driver
  \<^verbatim>\<open>Start\<close>, \<^verbatim>\<open>switchToReplay\<close>, \<^verbatim>\<open>Close\<close> and the tail of \<^verbatim>\<open>main\<close>.

  Go strings are byte strings: \<^typ>\<open>string\<close>. The receiver \<^verbatim>\<open>d\<close> is passed in and
  returned. The HTTP client is a script: the list of the answers the next requests will
  get, one element per request; a run that needs more answers than the script holds ends
  in \<open>Exhausted\<close>, which says nothing about the program. Every call leaves a trace of
  events (requests, marks in the ledger, sleeps, the replay switch). The logger is left
  out: its calls change nothing the downloader reads.
\<close>

subsection \<open>The functions of package strings that the downloader uses\<close>

fun HasPrefix :: "string \<Rightarrow> string \<Rightarrow> bool" where
  "HasPrefix s [] = True"
| "HasPrefix [] (p # ps) = False"
| "HasPrefix (c # cs) (p # ps) = (c = p \<and> HasPrefix cs ps)"

definition HasSuffix :: "string \<Rightarrow> string \<Rightarrow> bool" where
  "HasSuffix s suffix = HasPrefix (rev s) (rev suffix)"

fun Contains :: "string \<Rightarrow> string \<Rightarrow> bool" where
  "Contains [] substr = (substr = [])"
| "Contains (c # cs) substr = (HasPrefix (c # cs) substr \<or> Contains cs substr)"

text \<open>\<^verbatim>\<open>strings.Replace(s, old, new, 1)\<close>: the first occurrence only.\<close>

fun Replace1 :: "string \<Rightarrow> string \<Rightarrow> string \<Rightarrow> string" where
  "Replace1 [] old new = (if old = [] then new else [])"
| "Replace1 (c # cs) old new =
     (if HasPrefix (c # cs) old then new @ drop (length old) (c # cs)
      else c # Replace1 cs old new)"

text \<open>\<^verbatim>\<open>strings.LastIndex\<close>: the index of the last occurrence, or -1.\<close>

fun LastIndex_from :: "string \<Rightarrow> string \<Rightarrow> nat \<Rightarrow> int \<Rightarrow> int" where
  "LastIndex_from [] substr i best = (if substr = [] then int i else best)"
| "LastIndex_from (c # cs) substr i best =
     LastIndex_from cs substr (Suc i) (if HasPrefix (c # cs) substr then int i else best)"

definition LastIndex :: "string \<Rightarrow> string \<Rightarrow> int" where
  "LastIndex s substr = LastIndex_from s substr 0 (- 1)"

text \<open>The slice \<^verbatim>\<open>s[:i]\<close>; out of range it panics (\<open>None\<close>).\<close>

definition slice_to :: "string \<Rightarrow> int \<Rightarrow> string option" where
  "slice_to s i = (if i < 0 \<or> int (length s) < i then None else Some (take (nat i) s))"

text \<open>
  \<^verbatim>\<open>strings.TrimSpace\<close> removes the leading and trailing white space runes of
  \<^verbatim>\<open>unicode.IsSpace\<close>, here in their UTF-8 encoding.
\<close>

definition spaceRunes :: "string list" where
  "spaceRunes =
    [[CHR 0x09], [CHR 0x0A], [CHR 0x0B], [CHR 0x0C], [CHR 0x0D], [CHR 0x20],
     [CHR 0xC2, CHR 0x85], [CHR 0xC2, CHR 0xA0],
     [CHR 0xE1, CHR 0x9A, CHR 0x80],
     [CHR 0xE2, CHR 0x80, CHR 0x80], [CHR 0xE2, CHR 0x80, CHR 0x81],
     [CHR 0xE2, CHR 0x80, CHR 0x82], [CHR 0xE2, CHR 0x80, CHR 0x83],
     [CHR 0xE2, CHR 0x80, CHR 0x84], [CHR 0xE2, CHR 0x80, CHR 0x85],
     [CHR 0xE2, CHR 0x80, CHR 0x86], [CHR 0xE2, CHR 0x80, CHR 0x87],
     [CHR 0xE2, CHR 0x80, CHR 0x88], [CHR 0xE2, CHR 0x80, CHR 0x89],
     [CHR 0xE2, CHR 0x80, CHR 0x8A],
     [CHR 0xE2, CHR 0x80, CHR 0xA8], [CHR 0xE2, CHR 0x80, CHR 0xA9],
     [CHR 0xE2, CHR 0x80, CHR 0xAF], [CHR 0xE2, CHR 0x81, CHR 0x9F],
     [CHR 0xE3, CHR 0x80, CHR 0x80]]"

fun trimLeading :: "string list \<Rightarrow> string \<Rightarrow> string" where
  "trimLeading runes [] = []"
| "trimLeading runes (c # cs) =
     (case find (HasPrefix (c # cs)) runes of
        None \<Rightarrow> c # cs
      | Some r \<Rightarrow> trimLeading runes (drop (length r - 1) cs))"

definition TrimSpace :: "string \<Rightarrow> string" where
  "TrimSpace s = rev (trimLeading (map rev spaceRunes) (rev (trimLeading spaceRunes s)))"

text \<open>\<^verbatim>\<open>filepath.Base\<close>, with \<^verbatim>\<open>/\<close> as the only separator.\<close>

definition filepath_Base :: "string \<Rightarrow> string" where
  "filepath_Base path =
     (if path = [] then ''.''
      else let p = rev (dropWhile (\<lambda>c. c = CHR ''/'') (rev path));
               e = rev (takeWhile (\<lambda>c. c \<noteq> CHR ''/'') (rev p))
           in if e = [] then ''/'' else e)"

text \<open>The verb \<^verbatim>\<open>%d\<close> of \<^verbatim>\<open>fmt\<close> on a number that is not negative.\<close>

definition digit :: "nat \<Rightarrow> char" where
  "digit n = ''0123456789'' ! (n mod 10)"

function show_nat :: "nat \<Rightarrow> string" where
  "show_nat n = (if n < 10 then [digit n] else show_nat (n div 10) @ [digit n])"
  by pat_completeness auto
termination
  by (relation "measure id") auto

declare show_nat.simps [simp del]

text \<open>
  \<^verbatim>\<open>bufio.Scanner\<close> with its default split function: the lines between newlines, a
  trailing carriage return dropped, the last line also when no newline ends it. Lines
  are taken to fit the scanner's buffer.
\<close>

definition dropCR :: "string \<Rightarrow> string" where
  "dropCR l = (if l \<noteq> [] \<and> last l = CHR 0x0D then butlast l else l)"

fun scanLinesFrom :: "string \<Rightarrow> string \<Rightarrow> string list" where
  "scanLinesFrom cur [] = (if cur = [] then [] else [dropCR cur])"
| "scanLinesFrom cur (c # cs) =
     (if c = CHR 0x0A then dropCR cur # scanLinesFrom [] cs
      else scanLinesFrom (cur @ [c]) cs)"

definition scanLines :: "string \<Rightarrow> string list" where
  "scanLines content = scanLinesFrom [] content"

subsection \<open>The downloader, the HTTP client, the output file\<close>

text \<open>
  The answer to one request: \<open>NetErr e\<close> when \<^verbatim>\<open>http.NewRequest\<close> or
  \<^verbatim>\<open>client.Do\<close> returns the error \<open>e\<close>, \<open>Http status body\<close> otherwise.
\<close>

datatype response = NetErr string | Http nat string

datatype event =
    Fetch string
  | Acquire string string
  | Mark string
  | Sleep nat
  | Switch string

text \<open>The output file: \<^verbatim>\<open>Close\<close> on a closed file is an error and changes nothing.\<close>

record FileWriter =
  wname :: string
  wclosed :: bool
  wdata :: string
  wclose_calls :: nat

record HLSDownloader =
  baseURL :: string
  writer :: FileWriter
  seenChunks :: "string \<Rightarrow> bool"
  isCompleted :: bool
  stopChan :: bool

text \<open>\<open>stopChan\<close> is true once the channel is closed. A missing key of
  \<^verbatim>\<open>seenChunks\<close> reads as false, as in Go.\<close>

definition NewHLSDownloader :: "FileWriter \<Rightarrow> HLSDownloader" where
  "NewHLSDownloader w =
     \<lparr>baseURL = [], writer = w, seenChunks = (\<lambda>_. False), isCompleted = False,
      stopChan = False\<rparr>"

definition MAX_RETRIES :: nat where "MAX_RETRIES = 10"
definition RETRY_INTERVAL :: nat where "RETRY_INTERVAL = 5"
definition CHUNK_INTERVAL :: nat where "CHUNK_INTERVAL = 3"

datatype 'a result = Ok 'a | Err string | Exhausted

record 'a step =
  val :: "'a result"
  dl :: HLSDownloader
  rest :: "response list"
  evs :: "event list"

definition http_error :: "nat \<Rightarrow> string \<Rightarrow> string" where
  "http_error status body = ''HTTP error: '' @ show_nat status @ '', Body: '' @ body"

subsection \<open>getPlaylist\<close>

text \<open>The first loop of \<^verbatim>\<open>getPlaylist\<close>, over the lines; \<open>completed\<close> is
  \<^verbatim>\<open>d.isCompleted\<close>.\<close>

fun scanLoop :: "string list \<Rightarrow> bool \<Rightarrow> string list \<Rightarrow> bool \<Rightarrow> string list \<times> bool" where
  "scanLoop [] isChunk chunks completed = (chunks, completed)"
| "scanLoop (text # lines) isChunk chunks completed =
     (let line = TrimSpace text in
      if line = [] then scanLoop lines isChunk chunks completed
      else if HasPrefix line ''#EXTINF:'' then scanLoop lines True chunks completed
      else
        let take_it = (isChunk \<and> \<not> HasPrefix line ''#'');
            chunks' = (if take_it then chunks @ [line] else chunks);
            isChunk' = (if take_it then False else isChunk);
            completed' = (if Contains line ''#EXT-X-ENDLIST'' then True else completed)
        in scanLoop lines isChunk' chunks' completed')"

text \<open>Lines 284 to 295: the base URL and the bare names, from the first chunk.\<close>

definition rebase :: "HLSDownloader \<Rightarrow> string list \<Rightarrow> HLSDownloader \<times> string list" where
  "rebase d chunks =
     (case chunks of
        [] \<Rightarrow> (d, chunks)
      | firstChunk # _ \<Rightarrow>
          if HasPrefix firstChunk ''http'' then
            (let lastSlashIndex = LastIndex firstChunk ''/'' in
             if lastSlashIndex \<noteq> - 1 then
               (d\<lparr>baseURL := take (nat lastSlashIndex) firstChunk\<rparr>, map filepath_Base chunks)
             else (d, chunks))
          else (d, chunks))"

text \<open>The second loop: the first line that names a nested playlist.\<close>

fun findPlaylist :: "string list \<Rightarrow> string option" where
  "findPlaylist [] = None"
| "findPlaylist (text # lines) =
     (let line = TrimSpace text in
      if HasSuffix line ''.m3u8'' \<and> \<not> Contains line ''master_playlist'' then Some line
      else findPlaylist lines)"

fun getPlaylist :: "HLSDownloader \<Rightarrow> string \<Rightarrow> response list \<Rightarrow> (string list) step" where
  "getPlaylist d playlistURL [] =
     \<lparr>val = Exhausted, dl = d, rest = [], evs = [Fetch playlistURL]\<rparr>"
| "getPlaylist d playlistURL (NetErr e # rs) =
     \<lparr>val = Err e, dl = d, rest = rs, evs = [Fetch playlistURL]\<rparr>"
| "getPlaylist d playlistURL (Http status content # rs) =
     (if status \<noteq> 200 then
        \<lparr>val = Err (http_error status content), dl = d, rest = rs, evs = [Fetch playlistURL]\<rparr>
      else
        let scanned = scanLoop (scanLines content) False [] (isCompleted d);
            based = rebase (d\<lparr>isCompleted := snd scanned\<rparr>) (fst scanned);
            d' = fst based;
            chunks = snd based
        in if chunks = [] then
             (case findPlaylist (scanLines content) of
                Some line \<Rightarrow>
                  let playlistPath =
                        (if HasPrefix line ''http'' then line else baseURL d' @ ''/'' @ line);
                      nested = getPlaylist d' playlistPath rs
                  in nested\<lparr>evs := Fetch playlistURL # evs nested\<rparr>
              | None \<Rightarrow>
                  \<lparr>val = Err ''No audio segments or valid playlist found'', dl = d', rest = rs,
                   evs = [Fetch playlistURL]\<rparr>)
           else \<lparr>val = Ok chunks, dl = d', rest = rs, evs = [Fetch playlistURL]\<rparr>)"

subsection \<open>downloadChunk and processChunks\<close>

text \<open>
  \<^verbatim>\<open>io.Copy\<close> into the output file: a write to a closed file fails with the error of
  \<^verbatim>\<open>os.File\<close>; an empty body asks for no write.
\<close>

definition write_file :: "FileWriter \<Rightarrow> string \<Rightarrow> string + FileWriter" where
  "write_file w body =
     (if body = [] then Inr w
      else if wclosed w then Inl (''write '' @ wname w @ '': file already closed'')
      else Inr (w\<lparr>wdata := wdata w @ body\<rparr>))"

fun downloadChunk :: "HLSDownloader \<Rightarrow> string \<Rightarrow> response list \<Rightarrow> unit step" where
  "downloadChunk d chunkURL [] = \<lparr>val = Exhausted, dl = d, rest = [], evs = []\<rparr>"
| "downloadChunk d chunkURL (NetErr e # rs) = \<lparr>val = Err e, dl = d, rest = rs, evs = []\<rparr>"
| "downloadChunk d chunkURL (Http status body # rs) =
     (if status \<noteq> 200 then \<lparr>val = Err (http_error status body), dl = d, rest = rs, evs = []\<rparr>
      else case write_file (writer d) body of
             Inl e \<Rightarrow> \<lparr>val = Err e, dl = d, rest = rs, evs = []\<rparr>
           | Inr w \<Rightarrow> \<lparr>val = Ok (), dl = d\<lparr>writer := w\<rparr>, rest = rs, evs = []\<rparr>)"

text \<open>
  \<^verbatim>\<open>processChunks\<close> returns no error: its value is \<open>Ok ()\<close> unless the script ends.
  \<open>Acquire chunk chunkURL\<close> is the call of \<^verbatim>\<open>downloadChunk\<close>, \<open>Mark chunk\<close> the
  assignment \<^verbatim>\<open>d.seenChunks[chunk] = true\<close>.
\<close>

fun processChunks :: "HLSDownloader \<Rightarrow> string list \<Rightarrow> response list \<Rightarrow> unit step" where
  "processChunks d [] rs = \<lparr>val = Ok (), dl = d, rest = rs, evs = []\<rparr>"
| "processChunks d (chunk # chunks) rs =
     (if stopChan d then \<lparr>val = Ok (), dl = d, rest = rs, evs = []\<rparr>
      else if \<not> seenChunks d chunk then
        let chunkURL = baseURL d @ ''/'' @ chunk;
            got = downloadChunk d chunkURL rs
        in case val got of
             Exhausted \<Rightarrow> got\<lparr>evs := [Acquire chunk chunkURL]\<rparr>
           | Err e \<Rightarrow>
               if Contains e ''file already closed'' then
                 \<lparr>val = Ok (), dl = dl got, rest = rest got, evs = [Acquire chunk chunkURL]\<rparr>
               else
                 let later = processChunks (dl got) chunks (rest got)
                 in later\<lparr>evs := Acquire chunk chunkURL # evs later\<rparr>
           | Ok _ \<Rightarrow>
               let d' = (dl got)\<lparr>seenChunks := (seenChunks (dl got))(chunk := True)\<rparr>;
                   later = processChunks d' chunks (rest got)
               in later\<lparr>evs := Acquire chunk chunkURL # Mark chunk # evs later\<rparr>
      else processChunks d chunks rs)"

subsection \<open>switchToReplay, Start, Close\<close>

text \<open>\<open>None\<close> is the panic of the slice \<^verbatim>\<open>replayURL[:-1]\<close>.\<close>

definition switchToReplay :: "HLSDownloader \<Rightarrow> string \<Rightarrow> (string \<times> HLSDownloader) option" where
  "switchToReplay d playlistURL =
     (let replayURL0 = Replace1 playlistURL ''type=live'' ''type=replay'';
          replayURL =
            (if Contains replayURL0 ''dynamic_playlist.m3u8''
             then Replace1 replayURL0 ''dynamic_playlist.m3u8'' ''master_playlist.m3u8''
             else replayURL0)
      in case slice_to replayURL (LastIndex replayURL ''/'') of
           None \<Rightarrow> None
         | Some b \<Rightarrow> Some (replayURL, d\<lparr>baseURL := b\<rparr>))"

text \<open>What a call of \<^verbatim>\<open>Start\<close> comes to: a return (of nil or of an error), a panic,
  or the end of the script.\<close>

datatype outcome = Returned "string option" | Panic | OutOfScript

record run =
  out :: outcome
  final :: HLSDownloader
  unread :: "response list"
  trace :: "event list"

definition after :: "event list \<Rightarrow> run \<Rightarrow> run" where
  "after es r = r\<lparr>trace := es @ trace r\<rparr>"

lemma getPlaylist_consumes:
  "val (getPlaylist d u rs) \<noteq> Exhausted \<Longrightarrow> length (rest (getPlaylist d u rs)) < length rs"
proof (induction d u rs rule: getPlaylist.induct)
  case (3 d playlistURL status content rs)
  show ?case
  proof (cases "status \<noteq> 200")
    case True
    then show ?thesis by simp
  next
    case ok: False
    define d' where "d' = fst (rebase (d\<lparr>isCompleted := snd (scanLoop (scanLines content) False [] (isCompleted d))\<rparr>)
        (fst (scanLoop (scanLines content) False [] (isCompleted d))))"
    define chunks where "chunks = snd (rebase (d\<lparr>isCompleted := snd (scanLoop (scanLines content) False [] (isCompleted d))\<rparr>)
        (fst (scanLoop (scanLines content) False [] (isCompleted d))))"
    show ?thesis
    proof (cases "chunks = []")
      case False
      with ok show ?thesis by (simp add: Let_def chunks_def)
    next
      case True
      show ?thesis
      proof (cases "findPlaylist (scanLines content)")
        case None
        with ok True show ?thesis by (simp add: Let_def chunks_def)
      next
        case (Some line)
        let ?p = "if HasPrefix line ''http'' then line else baseURL d' @ ''/'' @ line"
        have eq: "getPlaylist d playlistURL (Http status content # rs) =
            (getPlaylist d' ?p rs)\<lparr>evs := Fetch playlistURL # evs (getPlaylist d' ?p rs)\<rparr>"
          using ok True Some by (simp add: Let_def chunks_def d'_def)
        from "3.prems" eq have "val (getPlaylist d' ?p rs) \<noteq> Exhausted" by simp
        with "3.IH"[of _ _ d' chunks line ?p] ok True Some
        have "length (rest (getPlaylist d' ?p rs)) < length rs"
          unfolding chunks_def d'_def by blast
        with eq show ?thesis by simp
      qed
    qed
  qed
qed simp_all

lemma downloadChunk_rest: "length (rest (downloadChunk d u rs)) \<le> length rs"
  by (cases "(d, u, rs)" rule: downloadChunk.cases) (auto split: sum.splits)

lemma processChunks_rest: "length (rest (processChunks d chunks rs)) \<le> length rs"
proof (induction d chunks rs rule: processChunks.induct)
  case (2 d chunk chunks rs)
  let ?u = "baseURL d @ ''/'' @ chunk"
  let ?g = "downloadChunk d ?u rs"
  have le: "length (rest ?g) \<le> length rs"
    by (rule downloadChunk_rest)
  show ?case
  proof (cases "stopChan d")
    case True
    then show ?thesis by simp
  next
    case ns: False
    show ?thesis
    proof (cases "seenChunks d chunk")
      case True
      with ns "2.IH"(3) show ?thesis by simp
    next
      case False
      show ?thesis
      proof (cases "val ?g")
        case (Ok x)
        from "2.IH"(1)[OF ns _ refl refl Ok refl] False
        have "length (rest (processChunks ((dl ?g)\<lparr>seenChunks := (seenChunks (dl ?g))(chunk := True)\<rparr>) chunks (rest ?g))) \<le> length (rest ?g)"
          by simp
        with ns False Ok le show ?thesis by (simp add: Let_def)
      next
        case (Err e)
        show ?thesis
        proof (cases "Contains e ''file already closed''")
          case True
          with ns False Err le show ?thesis by (simp add: Let_def)
        next
          case nc: False
          from "2.IH"(2)[OF ns _ refl refl Err nc] False
          have "length (rest (processChunks (dl ?g) chunks (rest ?g))) \<le> length (rest ?g)"
            by simp
          with ns False Err nc le show ?thesis by (simp add: Let_def)
        qed
      next
        case Exhausted
        with ns False le show ?thesis by (simp add: Let_def)
      qed
    qed
  qed
qed simp


lemma getPlaylist_Err_consumes:
  "val (getPlaylist d u rs) = Err e \<Longrightarrow> length (rest (getPlaylist d u rs)) < length rs"
  using getPlaylist_consumes [of d u rs] by simp

lemma getPlaylist_Ok_consumes:
  "val (getPlaylist d u rs) = Ok c \<Longrightarrow>
   length (rest (processChunks d' c' (rest (getPlaylist d u rs)))) < length rs"
  using getPlaylist_consumes [of d u rs] processChunks_rest [of d' c' "rest (getPlaylist d u rs)"]
  by simp

text \<open>The loop of \<^verbatim>\<open>Start\<close>, with its two local variables.\<close>

function Start_loop ::
  "HLSDownloader \<Rightarrow> string \<Rightarrow> nat \<Rightarrow> bool \<Rightarrow> response list \<Rightarrow> run" where
  "Start_loop d playlistURL retryCount hasTriedReplay rs =
     (if isCompleted d then \<lparr>out = Returned None, final = d, unread = rs, trace = []\<rparr>
      else if stopChan d then \<lparr>out = Returned None, final = d, unread = rs, trace = []\<rparr>
      else
        let got = getPlaylist d playlistURL rs in
        case val got of
          Exhausted \<Rightarrow>
            \<lparr>out = OutOfScript, final = dl got, unread = rest got, trace = evs got\<rparr>
        | Err e \<Rightarrow>
            if Contains e ''No audio segments found'' \<and> \<not> hasTriedReplay then
              (case switchToReplay (dl got) playlistURL of
                 None \<Rightarrow> \<lparr>out = Panic, final = dl got, unread = rest got, trace = evs got\<rparr>
               | Some sw \<Rightarrow>
                   after (evs got @ [Switch (fst sw)])
                     (Start_loop (snd sw) (fst sw) 0 True (rest got)))
            else if retryCount + 1 > MAX_RETRIES then
              \<lparr>out = Returned (Some (''Failed to get playlist, exceeded max retries: '' @ e)),
               final = dl got, unread = rest got, trace = evs got\<rparr>
            else
              after (evs got @ [Sleep RETRY_INTERVAL])
                (Start_loop (dl got) playlistURL (retryCount + 1) hasTriedReplay (rest got))
        | Ok chunks \<Rightarrow>
            let processed = processChunks (dl got) chunks (rest got) in
            (case val processed of
               Ok _ \<Rightarrow>
                 after (evs got @ evs processed @
                        (if isCompleted (dl processed) then [] else [Sleep CHUNK_INTERVAL]))
                   (Start_loop (dl processed) playlistURL 0 hasTriedReplay (rest processed))
             | _ \<Rightarrow>
                 \<lparr>out = OutOfScript, final = dl processed, unread = rest processed,
                  trace = evs got @ evs processed\<rparr>))"
  by pat_completeness auto
termination
  by (relation "measure (\<lambda>(d, u, n, h, rs). length rs)")
     (auto simp: getPlaylist_Err_consumes getPlaylist_Ok_consumes)

declare Start_loop.simps [simp del]

text \<open>\<^verbatim>\<open>Start\<close>: the slice at the last slash panics when there is none.\<close>

definition Start :: "HLSDownloader \<Rightarrow> string \<Rightarrow> response list \<Rightarrow> run" where
  "Start d playlistURL rs =
     (case slice_to playlistURL (LastIndex playlistURL ''/'') of
        None \<Rightarrow> \<lparr>out = Panic, final = d, unread = rs, trace = []\<rparr>
      | Some b \<Rightarrow> Start_loop (d\<lparr>baseURL := b\<rparr>) playlistURL 0 False rs)"

text \<open>\<^verbatim>\<open>Close\<close> of the file, then of the downloader (whose writer is never nil here).\<close>

definition file_Close :: "FileWriter \<Rightarrow> FileWriter" where
  "file_Close w = w\<lparr>wclosed := True, wclose_calls := wclose_calls w + 1\<rparr>"

definition Close :: "HLSDownloader \<Rightarrow> HLSDownloader" where
  "Close d = d\<lparr>stopChan := True, writer := file_Close (writer d)\<rparr>"

text \<open>
  The end of \<^verbatim>\<open>main\<close>, from the creation of the downloader: an error of
  \<^verbatim>\<open>Start\<close> ends the process with \<^verbatim>\<open>os.Exit(1)\<close>, which runs no deferred call;
  a return of nil runs \<^verbatim>\<open>downloader.Close()\<close>, then \<^verbatim>\<open>writer.Close()\<close> on the same
  file. The result is the file as the process leaves it, with the exit code; \<open>None\<close>
  when \<^verbatim>\<open>Start\<close> gives no return.
\<close>

definition main_tail :: "FileWriter \<Rightarrow> string \<Rightarrow> response list \<Rightarrow> (FileWriter \<times> nat) option" where
  "main_tail w playlistURL rs =
     (let r = Start (NewHLSDownloader w) playlistURL rs in
      case out r of
        Returned (Some e) \<Rightarrow> Some (writer (final r), 1)
      | Returned None \<Rightarrow> Some (file_Close (writer (Close (final r))), 0)
      | _ \<Rightarrow> None)"

subsection \<open>The notions of the claims\<close>

text \<open>The segment references of a manifest body, as the first loop collects them.\<close>

definition segments_of :: "string \<Rightarrow> string list" where
  "segments_of content = fst (scanLoop (scanLines content) False [] False)"

text \<open>A fresh output file, for the runs on concrete inputs.\<close>

definition test_writer :: FileWriter where
  "test_writer = \<lparr>wname = ''recording.aac'', wclosed = False, wdata = [], wclose_calls = 0\<rparr>"

section \<open>Properties\<close>

subsection \<open>Strings\<close>

lemma scanLoop_chunks_True:
  "fst (scanLoop ls b cs True) = fst (scanLoop ls b cs False)"
  by (induction ls arbitrary: b cs) (simp_all add: Let_def)

lemma scanLoop_chunks_indep:
  "fst (scanLoop ls b cs c) = fst (scanLoop ls b cs False)"
  by (cases c) (simp_all add: scanLoop_chunks_True)

lemma scanLoop_completed_True [simp]: "snd (scanLoop ls b cs True) = True"
  by (induction ls arbitrary: b cs) (simp_all add: Let_def)

lemma LastIndex_from_none:
  "CHR ''/'' \<notin> set s \<Longrightarrow> LastIndex_from s ''/'' i best = best"
  by (induction s arbitrary: i best) auto

lemma LastIndex_none: "CHR ''/'' \<notin> set s \<Longrightarrow> LastIndex s ''/'' = - 1"
  by (simp add: LastIndex_def LastIndex_from_none)

lemma set_Replace1: "set (Replace1 s old new) \<subseteq> set s \<union> set new"
proof (induction s)
  case (Cons c cs)
  have "set (drop (length old) (c # cs)) \<subseteq> set (c # cs)" by (rule set_drop_subset)
  with Cons show ?case by auto
qed auto

lemma notin_Replace1: "x \<notin> set s \<Longrightarrow> x \<notin> set new \<Longrightarrow> x \<notin> set (Replace1 s old new)"
  using set_Replace1 [of s old new] by blast

lemma switchToReplay_no_slash:
  assumes "CHR ''/'' \<notin> set u"
  shows "switchToReplay d u = None"
proof -
  let ?first = "Replace1 u ''type=live'' ''type=replay''"
  let ?second = "if Contains ?first ''dynamic_playlist.m3u8''
            then Replace1 ?first ''dynamic_playlist.m3u8'' ''master_playlist.m3u8'' else ?first"
  have one: "CHR ''/'' \<notin> set ?first"
    by (rule notin_Replace1) (use assms in simp_all)
  have "CHR ''/'' \<notin> set (Replace1 ?first ''dynamic_playlist.m3u8'' ''master_playlist.m3u8'')"
    by (rule notin_Replace1) (use one in simp_all)
  with one have "CHR ''/'' \<notin> set ?second" by simp
  then have "LastIndex ?second ''/'' = - 1" by (rule LastIndex_none)
  then show ?thesis by (simp add: switchToReplay_def slice_to_def Let_def)
qed

subsection \<open>A playlist URL without a slash\<close>

text \<open>
  C10. For a playlist URL that holds no \<^verbatim>\<open>/\<close>, \<^verbatim>\<open>strings.LastIndex\<close> is -1 and the
  slice \<^verbatim>\<open>playlistURL[:-1]\<close> panics: \<^verbatim>\<open>Start\<close> panics before any request, whatever the
  downloader and the answers of the server, and so does \<^verbatim>\<open>switchToReplay\<close> on such a
  URL. A slash in the URL is a precondition of both.
\<close>

theorem Start_panics_without_slash:
  assumes "CHR ''/'' \<notin> set playlistURL"
  shows "out (Start d playlistURL rs) = Panic \<and> trace (Start d playlistURL rs) = []
         \<and> switchToReplay d playlistURL = None"
  using assms by (simp add: Start_def slice_to_def LastIndex_none switchToReplay_no_slash)

theorem Start_panics_without_slash_witness:
  "CHR ''/'' \<notin> set ''playlist.m3u8''
   \<and> out (Start (NewHLSDownloader test_writer) ''playlist.m3u8'' [Http 200 ''#EXT-X-ENDLIST'']) = Panic
   \<and> switchToReplay (NewHLSDownloader test_writer) ''playlist.m3u8'' = None"
  using Start_panics_without_slash [of "''playlist.m3u8''" "NewHLSDownloader test_writer" "[Http 200 ''#EXT-X-ENDLIST'']"]
  by simp

subsection \<open>A manifest that only names the master playlist\<close>

lemma rebase_Nil [simp]: "rebase d [] = (d, [])"
  by (simp add: rebase_def)

lemma findPlaylist_None:
  "(findPlaylist ls = None) \<longleftrightarrow>
     (\<forall>l \<in> set ls. HasSuffix (TrimSpace l) ''.m3u8'' \<longrightarrow> Contains (TrimSpace l) ''master_playlist'')"
  by (induction ls) (auto simp: Let_def)

lemma scanned_chunks: "fst (scanLoop (scanLines content) False [] c) = segments_of content"
  unfolding segments_of_def by (rule scanLoop_chunks_indep)

text \<open>
  A body whose only line is \<^verbatim>\<open>master_playlist.m3u8\<close>: the fetcher fails with the
  no-segments error after the one request; the second answer of the script is not read.
\<close>

theorem getPlaylist_master_counterexample:
  "val (getPlaylist (NewHLSDownloader test_writer) ''http://h/live/playlist.m3u8''
         [Http 200 ''master_playlist.m3u8'', Http 200 ''#EXTINF:1\<newline>seg1.aac'']) =
     Err ''No audio segments or valid playlist found''
   \<and> evs (getPlaylist (NewHLSDownloader test_writer) ''http://h/live/playlist.m3u8''
         [Http 200 ''master_playlist.m3u8'', Http 200 ''#EXTINF:1\<newline>seg1.aac'']) =
     [Fetch ''http://h/live/playlist.m3u8'']"
  by code_simp

text \<open>
  C2, as the code has it. When a body (status 200) gives no segment reference and each
  of its lines that ends in \<^verbatim>\<open>.m3u8\<close> contains \<^verbatim>\<open>master_playlist\<close>, the second loop of
  \<^verbatim>\<open>getPlaylist\<close> skips these lines: no nested manifest is fetched, and the call fails
  with \<^verbatim>\<open>No audio segments or valid playlist found\<close>, having made its one request.
\<close>

theorem getPlaylist_master_playlist_not_fetched:
  assumes "segments_of content = []"
    and "\<forall>l \<in> set (scanLines content).
           HasSuffix (TrimSpace l) ''.m3u8'' \<longrightarrow> Contains (TrimSpace l) ''master_playlist''"
  shows "val (getPlaylist d url (Http 200 content # rs)) = Err ''No audio segments or valid playlist found''
       \<and> evs (getPlaylist d url (Http 200 content # rs)) = [Fetch url]
       \<and> rest (getPlaylist d url (Http 200 content # rs)) = rs"
proof -
  from assms(2) have none: "findPlaylist (scanLines content) = None"
    by (simp add: findPlaylist_None)
  show ?thesis
    using assms(1) none by (simp add: Let_def scanned_chunks)
qed

theorem getPlaylist_master_playlist_not_fetched_witness:
  "segments_of ''master_playlist.m3u8'' = []
   \<and> scanLines ''master_playlist.m3u8'' = [''master_playlist.m3u8'']
   \<and> Contains (TrimSpace ''master_playlist.m3u8'') ''master_playlist''
   \<and> val (getPlaylist (NewHLSDownloader test_writer) ''http://h/live/playlist.m3u8''
            [Http 200 ''master_playlist.m3u8'', Http 200 ''#EXTINF:1\<newline>seg1.aac'']) =
       Err ''No audio segments or valid playlist found''
   \<and> rest (getPlaylist (NewHLSDownloader test_writer) ''http://h/live/playlist.m3u8''
            [Http 200 ''master_playlist.m3u8'', Http 200 ''#EXTINF:1\<newline>seg1.aac'']) =
       [Http 200 ''#EXTINF:1\<newline>seg1.aac'']"
proof -
  have none: "segments_of ''master_playlist.m3u8'' = []"
    by code_simp
  have lines: "scanLines ''master_playlist.m3u8'' = [''master_playlist.m3u8'']"
    by code_simp
  have master: "Contains (TrimSpace ''master_playlist.m3u8'') ''master_playlist''"
    by code_simp
  have only: "\<forall>l \<in> set (scanLines ''master_playlist.m3u8'').
           HasSuffix (TrimSpace l) ''.m3u8'' \<longrightarrow> Contains (TrimSpace l) ''master_playlist''"
    unfolding lines using master by simp
  from getPlaylist_master_playlist_not_fetched [OF none only] none lines master
  show ?thesis by blast
qed

subsection \<open>What a fetch changes in the downloader\<close>

lemma rebase_frame: "\<exists>b. fst (rebase d chunks) = d\<lparr>baseURL := b\<rparr>"
proof (cases "fst (rebase d chunks) = d")
  case True
  then have "fst (rebase d chunks) = d\<lparr>baseURL := baseURL d\<rparr>" by simp
  then show ?thesis ..
next
  case False
  then show ?thesis
    by (auto simp: rebase_def Let_def split: list.splits if_splits)
qed

lemma getPlaylist_changes:
  "\<exists>b c. dl (getPlaylist d u rs) = d\<lparr>baseURL := b, isCompleted := c\<rparr> \<and> (isCompleted d \<longrightarrow> c)"
proof (induction d u rs rule: getPlaylist.induct)
  case (1 d playlistURL)
  have "d = d\<lparr>baseURL := baseURL d, isCompleted := isCompleted d\<rparr>" by simp
  then show ?case by (metis getPlaylist.simps(1) step.select_convs(2))
next
  case (2 d playlistURL e rs)
  have "d = d\<lparr>baseURL := baseURL d, isCompleted := isCompleted d\<rparr>" by simp
  then show ?case by (metis getPlaylist.simps(2) step.select_convs(2))
next
  case (3 d playlistURL status content rs)
  have same: "d = d\<lparr>baseURL := baseURL d, isCompleted := isCompleted d\<rparr>" by simp
  show ?case
  proof (cases "status \<noteq> 200")
    case True
    with same show ?thesis by (metis getPlaylist.simps(3) step.select_convs(2))
  next
    case ok: False
    define c1 where "c1 = snd (scanLoop (scanLines content) False [] (isCompleted d))"
    define based where "based = rebase (d\<lparr>isCompleted := c1\<rparr>) (fst (scanLoop (scanLines content) False [] (isCompleted d)))"
    have mono: "isCompleted d \<longrightarrow> c1" by (auto simp: c1_def)
    obtain b where b: "fst based = d\<lparr>isCompleted := c1, baseURL := b\<rparr>"
      using rebase_frame [of "d\<lparr>isCompleted := c1\<rparr>"] unfolding based_def by blast
    then have d': "fst based = d\<lparr>baseURL := b, isCompleted := c1\<rparr>" by simp
    show ?thesis
    proof (cases "snd based = []")
      case False
      with ok have "dl (getPlaylist d playlistURL (Http status content # rs)) = fst based"
        by (simp add: Let_def based_def c1_def)
      with d' mono show ?thesis by auto
    next
      case True
      show ?thesis
      proof (cases "findPlaylist (scanLines content)")
        case None
        with ok True have "dl (getPlaylist d playlistURL (Http status content # rs)) = fst based"
          by (simp add: Let_def based_def c1_def)
        with d' mono show ?thesis by auto
      next
        case (Some line)
        let ?p = "if HasPrefix line ''http'' then line else baseURL (fst based) @ ''/'' @ line"
        have eq: "dl (getPlaylist d playlistURL (Http status content # rs)) =
                  dl (getPlaylist (fst based) ?p rs)"
          using ok True Some by (simp add: Let_def based_def c1_def)
        from "3.IH" [of _ _ "fst based" "snd based" line ?p] ok True Some
        obtain b' c' where
          "dl (getPlaylist (fst based) ?p rs) = (fst based)\<lparr>baseURL := b', isCompleted := c'\<rparr>"
          and "isCompleted (fst based) \<longrightarrow> c'"
          unfolding based_def c1_def by blast
        with eq d' mono have
          "dl (getPlaylist d playlistURL (Http status content # rs)) = d\<lparr>baseURL := b', isCompleted := c'\<rparr>
           \<and> (isCompleted d \<longrightarrow> c')"
          by simp
        then show ?thesis by blast
      qed
    qed
  qed
qed

text \<open>
  One fetch of a manifest with an absolute segment URL and the end marker: the call
  leaves the downloader with another base URL and with the completion flag set.
\<close>

theorem getPlaylist_mutates_counterexample:
  "baseURL (dl (getPlaylist (NewHLSDownloader test_writer) ''http://h/live/playlist.m3u8''
         [Http 200 ''#EXTINF:1\<newline>http://cdn/a/seg1.aac\<newline>#EXT-X-ENDLIST''])) = ''http://cdn/a''
   \<and> isCompleted (dl (getPlaylist (NewHLSDownloader test_writer) ''http://h/live/playlist.m3u8''
         [Http 200 ''#EXTINF:1\<newline>http://cdn/a/seg1.aac\<newline>#EXT-X-ENDLIST'']))
   \<and> baseURL (NewHLSDownloader test_writer) = []
   \<and> \<not> isCompleted (NewHLSDownloader test_writer)"
  by code_simp

text \<open>
  C9, as the code has it. \<^verbatim>\<open>getPlaylist\<close> returns the segment list or an error, nothing
  else; the base URL and the completion flag are assigned in the receiver
  (\<^verbatim>\<open>d.baseURL\<close>, \<^verbatim>\<open>d.isCompleted\<close>). The fetch leaves the dedup ledger, the output file
  and the stop channel as they were, and it never clears a completion flag that was set.
\<close>

theorem getPlaylist_frame:
  "seenChunks (dl (getPlaylist d url rs)) = seenChunks d
   \<and> writer (dl (getPlaylist d url rs)) = writer d
   \<and> stopChan (dl (getPlaylist d url rs)) = stopChan d
   \<and> (isCompleted d \<longrightarrow> isCompleted (dl (getPlaylist d url rs)))"
proof -
  obtain b c where "dl (getPlaylist d url rs) = d\<lparr>baseURL := b, isCompleted := c\<rparr>"
    and "isCompleted d \<longrightarrow> c"
    using getPlaylist_changes by blast
  then show ?thesis by simp
qed

theorem getPlaylist_frame_witness:
  "isCompleted ((NewHLSDownloader test_writer)\<lparr>isCompleted := True\<rparr>)
   \<and> isCompleted (dl (getPlaylist ((NewHLSDownloader test_writer)\<lparr>isCompleted := True\<rparr>)
         ''http://h/live/playlist.m3u8'' [Http 200 ''#EXTINF:1\<newline>http://cdn/a/seg1.aac'']))
   \<and> stopChan (dl (getPlaylist ((NewHLSDownloader test_writer)\<lparr>isCompleted := True\<rparr>)
         ''http://h/live/playlist.m3u8'' [Http 200 ''#EXTINF:1\<newline>http://cdn/a/seg1.aac''])) = False"
  using getPlaylist_frame [of "(NewHLSDownloader test_writer)\<lparr>isCompleted := True\<rparr>"
      "''http://h/live/playlist.m3u8''" "[Http 200 ''#EXTINF:1\<newline>http://cdn/a/seg1.aac'']"]
  by (simp add: NewHLSDownloader_def)

subsection \<open>Absolute segment URLs\<close>







end
